theory Spec2Isabelle
  imports Main "HOL-Library.Word" "HOL-Library.AList" "HOL-Library.Monad_Syntax"
begin

section \<open>The script bridge of the game server (luascript.cpp)\<close>

text \<open>
  The development follows \<^verbatim>\<open>src/luascript.cpp\<close>: the per-call environment
  (\<^verbatim>\<open>ScriptEnvironment\<close>), the class registration and \<^verbatim>\<open>isType\<close>, and the timer events
  (\<^verbatim>\<open>addEvent\<close>, \<^verbatim>\<open>stopEvent\<close>, \<^verbatim>\<open>executeTimerEvent\<close>).
\<close>

subsection \<open>Engine objects\<close>

text \<open>
  Engine objects are reached through shared pointers. A pointer is an address, the null
  pointer is \<open>None\<close>. The object model (items, creatures, tiles) is external: the bridge only
  calls the accessors below.
\<close>

type_synonym ptr = nat
type_synonym uint32_t = "32 word"
type_synonym int32_t = "32 word"

record Thing =
  isRemoved :: bool
  getCreature :: "uint32_t option"  \<comment> \<open>\<open>Some id\<close>: the thing is a creature and \<open>getID()\<close> is \<open>id\<close>\<close>
  getItem :: bool  \<comment> \<open>the thing is an item (\<open>getItem()\<close> is not null)\<close>
  hasUniqueIdAttribute :: bool  \<comment> \<open>\<open>hasAttribute(ITEM_ATTRIBUTE_UNIQUEID)\<close>\<close>
  getUniqueId :: uint32_t
  getParent :: "ptr option"

record Game =
  things :: "ptr \<Rightarrow> Thing"  \<comment> \<open>the objects behind the pointers\<close>
  getCreatureByID :: "uint32_t \<Rightarrow> ptr option"
  getUniqueItem :: "uint32_t \<Rightarrow> ptr option"
  virtualCylinder :: ptr  \<comment> \<open>\<open>VirtualCylinder::virtualCylinder\<close>\<close>

text \<open>Dereferencing a null pointer is undefined behaviour; the model makes it a fault.\<close>

datatype fault = NullDereference

subsection \<open>ScriptEnvironment\<close>

text \<open>
  The class is declared in \<^verbatim>\<open>luascript.h\<close>, which is not among the sources; its members
  are those that \<^verbatim>\<open>luascript.cpp\<close> uses. \<open>localMap\<close> is a map ordered by key; it is kept as
  an association list in which \<open>map_insert\<close> puts a new key at its place, so that the list
  order is the iteration order of the container.
  \<open>lastUID\<close> is a member that \<open>resetEnv\<close> does not touch. \<open>int32_t\<close> values are only compared
  with 0 and copied, so they are words as well.
\<close>

record ScriptEnvironment =
  scriptId :: int32_t
  callbackId :: int32_t
  timerEvent :: bool
  interface :: "ptr option"
  localMap :: "(uint32_t \<times> ptr option) list"
  lastUID :: uint32_t

text \<open>
  \<^verbatim>\<open>bool ScriptEnvironment::setCallbackId(int32_t callbackId, LuaScriptInterface* scriptInterface)\<close>.
  The result carries the return value, the environment and the diagnostics printed.
\<close>

definition setCallbackId ::
  "ScriptEnvironment \<Rightarrow> int32_t \<Rightarrow> ptr option \<Rightarrow> bool \<times> ScriptEnvironment \<times> string list" where
  "setCallbackId env cb scriptInterface =
     (if callbackId env \<noteq> 0 then
        (False, env, if interface env \<noteq> None then [''Nested callbacks!''] else [])
      else (True, env\<lparr>callbackId := cb, interface := scriptInterface\<rparr>, []))"

text \<open>\<open>m[k] = v\<close> on an ordered map: the value of an existing key is replaced, a new key is
  inserted before the first greater key.\<close>

fun map_insert :: "uint32_t \<Rightarrow> 'v \<Rightarrow> (uint32_t \<times> 'v) list \<Rightarrow> (uint32_t \<times> 'v) list" where
  "map_insert k v [] = [(k, v)]"
| "map_insert k v ((k', v') # rest) =
     (if k < k' then (k, v) # (k', v') # rest
      else if k = k' then (k, v) # rest
      else (k', v') # map_insert k v rest)"

text \<open>The loop of \<open>addThing\<close> over \<open>localMap\<close>: the key of the first entry whose value is the
  item.\<close>

fun findItem :: "(uint32_t \<times> ptr option) list \<Rightarrow> ptr option \<Rightarrow> uint32_t option" where
  "findItem [] item = None"
| "findItem ((k, v) # rest) item = (if v = item then Some k else findItem rest item)"

text \<open>\<^verbatim>\<open>uint32_t ScriptEnvironment::addThing(const ThingPtr& thing)\<close>\<close>

definition addThing ::
  "Game \<Rightarrow> ScriptEnvironment \<Rightarrow> ptr option \<Rightarrow> uint32_t \<times> ScriptEnvironment" where
  "addThing g env thing =
     (case thing of
        None \<Rightarrow> (0, env)
      | Some t \<Rightarrow>
          if isRemoved (things g t) then (0, env)
          else case getCreature (things g t) of
            Some cid \<Rightarrow> (cid, env)
          | None \<Rightarrow>
              let item = (if getItem (things g t) then Some t else None) in
              if item \<noteq> None \<and> hasUniqueIdAttribute (things g t) then (getUniqueId (things g t), env)
              else case findItem (localMap env) item of
                Some k \<Rightarrow> (k, env)
              | None \<Rightarrow>
                  (lastUID env + 1,
                   env\<lparr>localMap := map_insert (lastUID env + 1) item (localMap env),
                       lastUID := lastUID env + 1\<rparr>))"

text \<open>
  \<^verbatim>\<open>void ScriptEnvironment::insertItem(uint32_t uid, const ItemPtr& item)\<close>:
  \<open>emplace\<close> inserts only when the key is absent.
\<close>

definition insertItem ::
  "ScriptEnvironment \<Rightarrow> uint32_t \<Rightarrow> ptr option \<Rightarrow> ScriptEnvironment \<times> string list" where
  "insertItem env uid item =
     (case map_of (localMap env) uid of
        None \<Rightarrow> (env\<lparr>localMap := map_insert uid item (localMap env)\<rparr>, [])
      | Some _ \<Rightarrow> (env, [''Lua Script Error: Thing uid already taken.'']))"

text \<open>\<^verbatim>\<open>ThingPtr ScriptEnvironment::getThingByUID(const uint32_t uid)\<close>\<close>

definition getThingByUID ::
  "Game \<Rightarrow> ScriptEnvironment \<Rightarrow> uint32_t \<Rightarrow> fault + ptr option" where
  "getThingByUID g env uid =
     (if uid \<ge> 0x10000000 then Inr (getCreatureByID g uid)
      else if uid \<le> 0xFFFF then
        (case getUniqueItem g uid of
           Some item \<Rightarrow> if \<not> isRemoved (things g item) then Inr (Some item) else Inr None
         | None \<Rightarrow> Inr None)
      else case map_of (localMap env) uid of
        Some None \<Rightarrow> Inl NullDereference
      | Some (Some item) \<Rightarrow> if \<not> isRemoved (things g item) then Inr (Some item) else Inr None
      | None \<Rightarrow> Inr None)"

text \<open>\<^verbatim>\<open>void ScriptEnvironment::removeItemByUID(const uint32_t uid)\<close>: the engine's
  \<open>removeUniqueItem\<close> is returned as a request, the local table is erased in place.\<close>

definition removeItemByUID ::
  "ScriptEnvironment \<Rightarrow> uint32_t \<Rightarrow> ScriptEnvironment \<times> uint32_t option" where
  "removeItemByUID env uid =
     (if uid \<le> 0xFFFF then (env, Some uid)
      else (env\<lparr>localMap := AList.delete uid (localMap env)\<rparr>, None))"


subsection \<open>Static members of ScriptEnvironment and the array of environments\<close>

text \<open>
  \<^verbatim>\<open>tempResults\<close>, \<^verbatim>\<open>lastResultId\<close> and \<^verbatim>\<open>tempItems\<close> are static members
  (defined once at the top of the file), so they live beside the array
  \<^verbatim>\<open>LuaScriptInterface::scriptEnv[16]\<close> and not inside an environment. An environment is
  named by its index in the array, which also stands for its \<open>this\<close> pointer as the key of
  the \<open>tempItems\<close> multimap. The multimap is a list ordered by key.
\<close>

record World =
  scriptEnv :: "nat \<Rightarrow> ScriptEnvironment"
  tempResults :: "(uint32_t \<times> ptr option) list"
  lastResultId :: uint32_t
  tempItems :: "(nat \<times> ptr option) list"

text \<open>
  The loop of \<open>resetEnv\<close> over \<open>tempItems.equal_range(this)\<close>. \<open>tempItems\<close> holds shared
  pointers (\<open>ItemPtr\<close>): \<open>tempItems.erase(it)\<close> destroys the entry and with it the pointer,
  which is how the bridge gives the object up. The second component lists the objects whose
  pointer the loop drops, one occurrence per erased entry. The explicit call
  \<open>g_game.ReleaseItem\<close> in the branch that tests the parent is commented out in the source,
  so both branches go on to the erase alone.
\<close>

fun resetEnv_loop ::
  "Game \<Rightarrow> nat \<Rightarrow> (nat \<times> ptr option) list \<Rightarrow> (nat \<times> ptr option) list \<times> ptr list" where
  "resetEnv_loop g this [] = ([], [])"
| "resetEnv_loop g this ((k, item) # rest) =
     (let (rest', released) = resetEnv_loop g this rest in
      if k = this then
        (case item of
           Some i \<Rightarrow>
             if getParent (things g i) = Some (virtualCylinder g)
             then (rest', i # released)  \<comment> \<open>\<open>// g_game.ReleaseItem(item);\<close> then \<open>erase\<close>\<close>
             else (rest', i # released)  \<comment> \<open>\<open>erase\<close>\<close>
         | None \<Rightarrow> (rest', released))
      else ((k, item) # rest', released))"

text \<open>\<^verbatim>\<open>void ScriptEnvironment::resetEnv()\<close>\<close>

definition resetEnv :: "Game \<Rightarrow> nat \<Rightarrow> World \<Rightarrow> World \<times> ptr list" where
  "resetEnv g this w =
     (let env = (scriptEnv w this)\<lparr>scriptId := 0, callbackId := 0, timerEvent := False,
                  interface := None, localMap := []\<rparr>;
          (items, released) = resetEnv_loop g this (tempItems w)
      in (w\<lparr>scriptEnv := (scriptEnv w)(this := env), tempResults := [], tempItems := items\<rparr>,
          released))"



text \<open>\<^verbatim>\<open>void ScriptEnvironment::removeTempItem(const ItemPtr& item)\<close> (static): the first
  entry holding the item is erased.\<close>

fun removeTempItem_loop :: "(nat \<times> ptr option) list \<Rightarrow> ptr option \<Rightarrow> (nat \<times> ptr option) list" where
  "removeTempItem_loop [] item = []"
| "removeTempItem_loop ((k, v) # rest) item =
     (if v = item then rest else (k, v) # removeTempItem_loop rest item)"

definition removeTempItem :: "World \<Rightarrow> ptr option \<Rightarrow> World" where
  "removeTempItem w item = w\<lparr>tempItems := removeTempItem_loop (tempItems w) item\<rparr>"

text \<open>\<^verbatim>\<open>uint32_t ScriptEnvironment::addResult(const DBResult_ptr& res)\<close>. The method is
  called on an environment, but touches static members only.\<close>

definition addResult :: "nat \<Rightarrow> World \<Rightarrow> ptr option \<Rightarrow> uint32_t \<times> World" where
  "addResult this w res =
     (lastResultId w + 1,
      w\<lparr>tempResults := AList.update (lastResultId w + 1) res (tempResults w),
        lastResultId := lastResultId w + 1\<rparr>)"

text \<open>\<^verbatim>\<open>bool ScriptEnvironment::removeResult(uint32_t id)\<close>\<close>

definition removeResult :: "nat \<Rightarrow> World \<Rightarrow> uint32_t \<Rightarrow> bool \<times> World" where
  "removeResult this w rid =
     (case map_of (tempResults w) rid of
        None \<Rightarrow> (False, w)
      | Some _ \<Rightarrow> (True, w\<lparr>tempResults := AList.delete rid (tempResults w)\<rparr>))"

text \<open>\<^verbatim>\<open>DBResult_ptr ScriptEnvironment::getResultByID(uint32_t id)\<close>\<close>

definition getResultByID :: "nat \<Rightarrow> World \<Rightarrow> uint32_t \<Rightarrow> ptr option" where
  "getResultByID this w rid =
     (case map_of (tempResults w) rid of None \<Rightarrow> None | Some res \<Rightarrow> res)"

text \<open>The temp-object entries registered to one environment, and the objects behind a list
  of pointers (a null pointer holds none).\<close>

fun pointees :: "ptr option list \<Rightarrow> ptr list" where
  "pointees [] = []"
| "pointees (None # rest) = pointees rest"
| "pointees (Some p # rest) = p # pointees rest"




subsection \<open>The Lua state and the C API calls the bridge makes\<close>

text \<open>
  The Lua library is external. Its state is modelled as far as the bridge uses it: the value
  stack of the running C function (index 1 is the head of the list, index \<open>-1\<close> its last
  element), tables with their metatables, userdata with the shared pointer they hold, the
  globals, and the registry (names for \<open>luaL_newmetatable\<close>, integers for \<open>luaL_ref\<close>).
  An API call returns \<open>None\<close> where the real call does not return normally: a Lua error is
  raised, the API is used outside its contract, or control passes to script code, which is
  not part of the model. Numbers are integers; what a conversion to a C integer type gives
  is left to \<open>getNumber\<close> below.
\<close>

datatype cfunction = FnItemGetUniqueId | FnCreatureGetId | FnOther nat

datatype lua_value =
    LNil
  | LBoolean bool
  | LNumber int
  | LString string
  | LTable nat
  | LUserdata nat
  | LFunction nat
  | LCFunction cfunction

record lua_State =
  stack :: "lua_value list"
  tfields :: "nat \<Rightarrow> lua_value \<Rightarrow> lua_value"  \<comment> \<open>contents of each table, \<open>LNil\<close> for an absent key\<close>
  tmeta :: "nat \<Rightarrow> nat option"  \<comment> \<open>metatable of each table\<close>
  umeta :: "nat \<Rightarrow> nat option"  \<comment> \<open>metatable of each userdata\<close>
  upointer :: "nat \<Rightarrow> ptr option"  \<comment> \<open>the shared pointer stored in each userdata\<close>
  string_meta :: "nat option"  \<comment> \<open>the metatable shared by all strings\<close>
  globals :: "string \<Rightarrow> lua_value"
  registry :: "string \<Rightarrow> lua_value"
  refs :: "int \<Rightarrow> lua_value"
  next_table :: nat
  next_udata :: nat
  ref_count :: nat  \<comment> \<open>number of references handed out so far\<close>
  unref_calls :: "int list"  \<comment> \<open>every reference passed to \<open>luaL_unref\<close>, in call order\<close>

definition lua_gettop :: "lua_State \<Rightarrow> int" where
  "lua_gettop L = int (length (stack L))"

text \<open>The stack slot of an index, for the calls that need an existing slot.\<close>

definition index2adr :: "lua_State \<Rightarrow> int \<Rightarrow> nat option" where
  "index2adr L idx =
     (if 0 < idx \<and> idx \<le> int (length (stack L)) then Some (nat idx - 1)
      else if idx < 0 \<and> - idx \<le> int (length (stack L)) then Some (nat (int (length (stack L)) + idx))
      else None)"

text \<open>The value at an index; a positive index above the top reads as nil (an acceptable
  index), a negative index below the bottom is outside the contract.\<close>

definition index2value :: "lua_State \<Rightarrow> int \<Rightarrow> lua_value option" where
  "index2value L idx =
     (case index2adr L idx of
        Some a \<Rightarrow> Some (stack L ! a)
      | None \<Rightarrow> if 0 < idx then Some LNil else None)"

definition push :: "lua_value \<Rightarrow> lua_State \<Rightarrow> lua_State" where
  "push v L = L\<lparr>stack := stack L @ [v]\<rparr>"


definition lua_pushboolean :: "bool \<Rightarrow> lua_State \<Rightarrow> lua_State option" where
  "lua_pushboolean b L = Some (push (LBoolean b) L)"

definition lua_pushinteger :: "int \<Rightarrow> lua_State \<Rightarrow> lua_State option" where
  "lua_pushinteger n L = Some (push (LNumber n) L)"

definition lua_pushcfunction :: "cfunction \<Rightarrow> lua_State \<Rightarrow> lua_State option" where
  "lua_pushcfunction f L = Some (push (LCFunction f) L)"

definition lua_pushvalue :: "int \<Rightarrow> lua_State \<Rightarrow> lua_State option" where
  "lua_pushvalue idx L = do { v \<leftarrow> index2value L idx; Some (push v L) }"

definition lua_pop :: "nat \<Rightarrow> lua_State \<Rightarrow> lua_State option" where
  "lua_pop n L =
     (if n \<le> length (stack L) then Some (L\<lparr>stack := take (length (stack L) - n) (stack L)\<rparr>)
      else None)"

definition lua_replace :: "int \<Rightarrow> lua_State \<Rightarrow> lua_State option" where
  "lua_replace idx L =
     (case index2adr L idx of
        None \<Rightarrow> None
      | Some a \<Rightarrow> Some (L\<lparr>stack := butlast ((stack L)[a := last (stack L)])\<rparr>))"

definition lua_newtable :: "lua_State \<Rightarrow> lua_State option" where
  "lua_newtable L =
     Some (push (LTable (next_table L))
       (L\<lparr>tfields := (tfields L)(next_table L := (\<lambda>_. LNil)),
          tmeta := (tmeta L)(next_table L := None),
          next_table := next_table L + 1\<rparr>))"

definition lua_getglobal :: "string \<Rightarrow> lua_State \<Rightarrow> lua_State option" where
  "lua_getglobal name L = Some (push (globals L name) L)"

definition lua_setglobal :: "string \<Rightarrow> lua_State \<Rightarrow> lua_State option" where
  "lua_setglobal name L =
     (if stack L = [] then None
      else Some (L\<lparr>globals := (globals L)(name := last (stack L)), stack := butlast (stack L)\<rparr>))"

definition lua_rawgeti :: "int \<Rightarrow> int \<Rightarrow> lua_State \<Rightarrow> lua_State option" where
  "lua_rawgeti idx n L =
     (case index2value L idx of
        Some (LTable t) \<Rightarrow> Some (push (tfields L t (LNumber n)) L)
      | _ \<Rightarrow> None)"

definition rawset :: "nat \<Rightarrow> lua_value \<Rightarrow> lua_State \<Rightarrow> lua_State" where
  "rawset t k L = L\<lparr>tfields := (tfields L)(t := (tfields L t)(k := last (stack L))),
                    stack := butlast (stack L)\<rparr>"

definition lua_rawseti :: "int \<Rightarrow> int \<Rightarrow> lua_State \<Rightarrow> lua_State option" where
  "lua_rawseti idx n L =
     (if stack L = [] then None
      else case index2value L idx of
        Some (LTable t) \<Rightarrow> Some (rawset t (LNumber n) L)
      | _ \<Rightarrow> None)"

text \<open>\<open>lua_setfield\<close> honours \<open>__newindex\<close>; a table whose metatable has one is outside
  the model.\<close>

definition lua_setfield :: "int \<Rightarrow> string \<Rightarrow> lua_State \<Rightarrow> lua_State option" where
  "lua_setfield idx k L =
     (if stack L = [] then None
      else case index2value L idx of
        Some (LTable t) \<Rightarrow>
          if tfields L t (LString k) \<noteq> LNil then Some (rawset t (LString k) L)
          else (case tmeta L t of
                  None \<Rightarrow> Some (rawset t (LString k) L)
                | Some m \<Rightarrow>
                    if tfields L m (LString ''__newindex'') = LNil
                    then Some (rawset t (LString k) L) else None)
      | _ \<Rightarrow> None)"

definition getmetatable_of :: "lua_State \<Rightarrow> lua_value \<Rightarrow> nat option" where
  "getmetatable_of L v =
     (case v of
        LTable t \<Rightarrow> tmeta L t
      | LUserdata u \<Rightarrow> umeta L u
      | LString _ \<Rightarrow> string_meta L
      | _ \<Rightarrow> None)"

text \<open>\<open>lua_getmetatable\<close> pushes the metatable and returns 1, or pushes nothing and
  returns 0.\<close>

definition lua_getmetatable :: "int \<Rightarrow> lua_State \<Rightarrow> (int \<times> lua_State) option" where
  "lua_getmetatable idx L =
     do { v \<leftarrow> index2value L idx;
          case getmetatable_of L v of
            None \<Rightarrow> Some (0, L)
          | Some m \<Rightarrow> Some (1, push (LTable m) L) }"

definition lua_setmetatable :: "int \<Rightarrow> lua_State \<Rightarrow> lua_State option" where
  "lua_setmetatable idx L =
     (if stack L = [] then None
      else case (last (stack L), index2value L idx) of
        (LTable m, Some (LTable t)) \<Rightarrow>
           Some (L\<lparr>tmeta := (tmeta L)(t := Some m), stack := butlast (stack L)\<rparr>)
      | (LNil, Some (LTable t)) \<Rightarrow>
           Some (L\<lparr>tmeta := (tmeta L)(t := None), stack := butlast (stack L)\<rparr>)
      | (LTable m, Some (LUserdata u)) \<Rightarrow>
           Some (L\<lparr>umeta := (umeta L)(u := Some m), stack := butlast (stack L)\<rparr>)
      | (LNil, Some (LUserdata u)) \<Rightarrow>
           Some (L\<lparr>umeta := (umeta L)(u := None), stack := butlast (stack L)\<rparr>)
      | _ \<Rightarrow> None)"

text \<open>
  Indexing with metamethods (\<open>luaV_gettable\<close>): the chain of \<open>__index\<close> tables is followed
  at most 100 times (\<open>MAXTAGLOOP\<close>), then Lua raises an error. An \<open>__index\<close> function is
  script code.
\<close>

fun gettable :: "nat \<Rightarrow> lua_State \<Rightarrow> lua_value \<Rightarrow> lua_value \<Rightarrow> lua_value option" where
  "gettable 0 L v key = None"
| "gettable (Suc n) L v key =
     (case v of
        LTable t \<Rightarrow>
          if tfields L t key \<noteq> LNil then Some (tfields L t key)
          else (case tmeta L t of
                  None \<Rightarrow> Some LNil
                | Some m \<Rightarrow>
                    (case tfields L m (LString ''__index'') of
                       LNil \<Rightarrow> Some LNil
                     | LFunction _ \<Rightarrow> None
                     | LCFunction _ \<Rightarrow> None
                     | h \<Rightarrow> gettable n L h key))
      | _ \<Rightarrow>
          (case getmetatable_of L v of
             None \<Rightarrow> None
           | Some m \<Rightarrow>
               (case tfields L m (LString ''__index'') of
                  LNil \<Rightarrow> None
                | LFunction _ \<Rightarrow> None
                | LCFunction _ \<Rightarrow> None
                | h \<Rightarrow> gettable n L h key)))"

definition lua_getfield :: "int \<Rightarrow> string \<Rightarrow> lua_State \<Rightarrow> lua_State option" where
  "lua_getfield idx k L =
     do { v \<leftarrow> index2value L idx;
          r \<leftarrow> gettable 100 L v (LString k);
          Some (push r L) }"

definition luaL_getmetatable :: "string \<Rightarrow> lua_State \<Rightarrow> lua_State option" where
  "luaL_getmetatable name L = Some (push (registry L name) L)"

text \<open>\<open>luaL_newmetatable\<close>: a name already in the registry is pushed as it is.\<close>

definition luaL_newmetatable :: "string \<Rightarrow> lua_State \<Rightarrow> lua_State option" where
  "luaL_newmetatable name L =
     (if registry L name \<noteq> LNil then Some (push (registry L name) L)
      else Some (push (LTable (next_table L))
             (L\<lparr>tfields := (tfields L)(next_table L := (\<lambda>_. LNil)),
                tmeta := (tmeta L)(next_table L := None),
                registry := (registry L)(name := LTable (next_table L)),
                next_table := next_table L + 1\<rparr>)))"


definition luaL_unref :: "int \<Rightarrow> lua_State \<Rightarrow> lua_State" where
  "luaL_unref r L =
     L\<lparr>refs := (if 0 \<le> r then (refs L)(r := LNil) else refs L),
       unref_calls := unref_calls L @ [r]\<rparr>"


text \<open>\<open>pushSharedPtr\<close>: a new userdata holding the pointer.\<close>

definition pushSharedPtr :: "ptr option \<Rightarrow> lua_State \<Rightarrow> lua_State option" where
  "pushSharedPtr p L =
     Some (push (LUserdata (next_udata L))
       (L\<lparr>upointer := (upointer L)(next_udata L := p),
          umeta := (umeta L)(next_udata L := None),
          next_udata := next_udata L + 1\<rparr>))"

text \<open>\<^verbatim>\<open>void LuaScriptInterface::setMetatable(lua_State* L, int32_t index, const std::string& name)\<close>\<close>

definition setMetatable :: "int \<Rightarrow> string \<Rightarrow> lua_State \<Rightarrow> lua_State option" where
  "setMetatable index name L = do { L \<leftarrow> luaL_getmetatable name L; lua_setmetatable (index - 1) L }"




text \<open>\<^verbatim>\<open>void LuaScriptInterface::pushBoolean(lua_State* L, bool value)\<close>\<close>

definition pushBoolean :: "bool \<Rightarrow> lua_State \<Rightarrow> lua_State option" where
  "pushBoolean v L = lua_pushboolean v L"

subsection \<open>What the missing header declares\<close>

text \<open>
  \<^verbatim>\<open>luascript.h\<close> is not among the sources. The enumeration \<open>LuaDataType\<close> has the eight
  values that \<open>registerClass\<close> and \<open>luaAddEvent\<close> name; their integer codes, the conversions
  \<open>getNumber<T>\<close> from a Lua value (read at a stack index) to the C type \<open>T\<close>, and
  \<open>std::hash<std::string>\<close> are parameters of the model.
\<close>

datatype LuaDataType =
    LuaData_Unknown | LuaData_Item | LuaData_Container | LuaData_Teleport
  | LuaData_Player | LuaData_Monster | LuaData_Npc | LuaData_Tile

record Header =
  getNumber_uint32 :: "lua_value \<Rightarrow> uint32_t"
  getNumber_uint_fast8 :: "lua_value \<Rightarrow> 8 word"
  getNumber_size_t :: "lua_value \<Rightarrow> 64 word"
  getNumber_LuaDataType :: "lua_value \<Rightarrow> LuaDataType"
  LuaDataType_code :: "LuaDataType \<Rightarrow> int"
  std_hash :: "string \<Rightarrow> 64 word"

subsection \<open>Class registration\<close>

text \<open>
  \<^verbatim>\<open>void LuaScriptInterface::registerClass(const std::string& className,
  const std::string& baseClass, lua_CFunction newFunction)\<close>. The keys \<open>'h'\<close>, \<open>'p'\<close> and
  \<open>'t'\<close> are the integers 104, 112 and 116.
\<close>

definition classType :: "string \<Rightarrow> LuaDataType" where
  "classType className =
     (if className = ''Item'' then LuaData_Item
      else if className = ''Container'' then LuaData_Container
      else if className = ''Teleport'' then LuaData_Teleport
      else if className = ''Player'' then LuaData_Player
      else if className = ''Monster'' then LuaData_Monster
      else if className = ''Npc'' then LuaData_Npc
      else if className = ''Tile'' then LuaData_Tile
      else LuaData_Unknown)"

definition registerClass ::
  "Header \<Rightarrow> string \<Rightarrow> string \<Rightarrow> cfunction option \<Rightarrow> lua_State \<Rightarrow> lua_State option" where
  "registerClass h className baseClass newFunction L =
     do { L \<leftarrow> lua_newtable L;
          L \<leftarrow> lua_pushvalue (-1) L;
          L \<leftarrow> lua_setglobal className L;
          let methods = lua_gettop L;
          L \<leftarrow> lua_newtable L;
          let methodsTable = lua_gettop L;
          L \<leftarrow> (case newFunction of
                  Some f \<Rightarrow> do { L \<leftarrow> lua_pushcfunction f L; lua_setfield methodsTable ''__call'' L }
                | None \<Rightarrow> Some L);
          (parents, L) \<leftarrow>
            (if baseClass \<noteq> [] then
               do { L \<leftarrow> lua_getglobal baseClass L;
                    L \<leftarrow> lua_rawgeti (-1) 112 L;
                    v \<leftarrow> index2value L (-1);
                    let parents = getNumber_uint32 h v + 1;
                    L \<leftarrow> lua_pop 1 L;
                    L \<leftarrow> lua_setfield methodsTable ''__index'' L;
                    Some (parents, L) }
             else Some (0, L));
          L \<leftarrow> lua_setmetatable methods L;
          L \<leftarrow> luaL_newmetatable className L;
          let metatable = lua_gettop L;
          L \<leftarrow> lua_pushvalue methods L;
          L \<leftarrow> lua_setfield metatable ''__metatable'' L;
          L \<leftarrow> lua_pushvalue methods L;
          L \<leftarrow> lua_setfield metatable ''__index'' L;
          L \<leftarrow> lua_pushinteger (sint (std_hash h className)) L;
          L \<leftarrow> lua_rawseti metatable 104 L;
          L \<leftarrow> lua_pushinteger (uint parents) L;
          L \<leftarrow> lua_rawseti metatable 112 L;
          L \<leftarrow> lua_pushinteger (LuaDataType_code h (classType className)) L;
          L \<leftarrow> lua_rawseti metatable 116 L;
          lua_pop 2 L }"

text \<open>\<^verbatim>\<open>void LuaScriptInterface::registerMethod(const std::string& globalName,
  const std::string& methodName, lua_CFunction func)\<close>\<close>

definition registerMethod :: "string \<Rightarrow> string \<Rightarrow> cfunction \<Rightarrow> lua_State \<Rightarrow> lua_State option" where
  "registerMethod globalName methodName func L =
     do { L \<leftarrow> lua_getglobal globalName L;
          L \<leftarrow> lua_pushcfunction func L;
          L \<leftarrow> lua_setfield (-2) methodName L;
          lua_pop 1 L }"

subsection \<open>isType\<close>

text \<open>
  The loop of \<open>luaIsType\<close>: \<^verbatim>\<open>for (uint_fast8_t i = parentsA; i < parentsB; ++i)\<close>.
  The counter stays below \<open>parentsB\<close>, so its increment never wraps.
\<close>

function luaIsType_loop :: "8 word \<Rightarrow> 8 word \<Rightarrow> lua_State \<Rightarrow> lua_State option" where
  "luaIsType_loop i parentsB L =
     (if i < parentsB then
        do { L \<leftarrow> lua_getfield (-3) ''__index'' L;
             L \<leftarrow> lua_replace (-4) L;
             luaIsType_loop (i + 1) parentsB L }
      else Some L)"
  by pat_completeness auto
termination
proof (relation "measure (\<lambda>(i, parentsB, L). unat parentsB - unat i)")
  show "wf (measure (\<lambda>(i :: 8 word, parentsB :: 8 word, L :: lua_State). unat parentsB - unat i))"
    by simp
next
  fix i parentsB :: "8 word" and L x xa :: lua_State
  assume lt: "i < parentsB"
  then have a: "unat i < unat parentsB" by (simp add: word_less_nat_alt)
  have b: "unat parentsB < 256" using unsigned_less [of parentsB, where 'a = nat] by simp
  have "unat (i + 1) = (unat i + 1) mod 2 ^ 8" by (simp add: unat_word_ariths)
  also have "\<dots> = unat i + 1" using a b by simp
  finally have "unat (i + 1) = unat i + 1" .
  with a show "((i + 1, parentsB, xa), (i, parentsB, L))
      \<in> measure (\<lambda>(i, parentsB, L). unat parentsB - unat i)"
    by simp
qed

text \<open>\<^verbatim>\<open>int LuaScriptInterface::luaIsType(lua_State* L)\<close>: the state returned has the
  result of the call on top of its stack. Every \<open>getNumber\<close> of the source reads index 1.\<close>

definition luaIsType :: "Header \<Rightarrow> lua_State \<Rightarrow> lua_State option" where
  "luaIsType h L =
     do { (_, L) \<leftarrow> lua_getmetatable (-2) L;
          (_, L) \<leftarrow> lua_getmetatable (-2) L;
          L \<leftarrow> lua_rawgeti (-2) 112 L;
          v \<leftarrow> index2value L 1;
          let parentsB = getNumber_uint_fast8 h v;
          L \<leftarrow> lua_rawgeti (-3) 104 L;
          v \<leftarrow> index2value L 1;
          let hashB = getNumber_size_t h v;
          L \<leftarrow> lua_rawgeti (-3) 112 L;
          v \<leftarrow> index2value L 1;
          let parentsA = getNumber_uint_fast8 h v;
          L \<leftarrow> luaIsType_loop parentsA parentsB L;
          L \<leftarrow> lua_rawgeti (-4) 104 L;
          v \<leftarrow> index2value L 1;
          let hashA = getNumber_size_t h v;
          pushBoolean (hashA = hashB) L }"


subsection \<open>The bridge state: Lua, environments, timers, scheduler\<close>

text \<open>
  \<^verbatim>\<open>LuaTimerEventDesc\<close>: the registry references of the callback and of the captured
  arguments, the script id and the scheduler's task id.
\<close>

record LuaTimerEventDesc =
  desc_scriptId :: int32_t
  desc_function :: int
  desc_parameters :: "int list"
  desc_eventId :: uint32_t

datatype diagnostic =
    ErrorText string
  | NotEnoughParameters int
  | UnsafeArguments "int list"  \<comment> \<open>the warning that lists the argument positions\<close>
  | ScriptError lua_value  \<comment> \<open>the error value that \<open>lua_pcall\<close> left on the stack\<close>
  | CallStackOverflow


text \<open>
  The scheduler is external. The model records the tasks handed to \<open>addEvent\<close> (task id,
  delay, and the timer id bound in the task's closure) and the task ids passed to
  \<open>stopEvent\<close>; task ids come from a counter.
\<close>

record Bridge =
  lua :: lua_State
  world :: World
  scriptEnvIndex :: int
  timerEvents :: "(uint32_t \<times> LuaTimerEventDesc) list"
  lastEventTimerId :: uint32_t
  scheduler_tasks :: "(uint32_t \<times> uint32_t \<times> uint32_t) list"
  scheduler_lastEventId :: uint32_t
  scheduler_stopped :: "uint32_t list"
  reported :: "diagnostic list"



text \<open>
  Modelled from the spec: \<open>getScriptEnv\<close>, \<open>reserveScriptEnv\<close> and \<open>resetScriptEnv\<close> are
  declared in the missing header. The pool of contexts has a fixed capacity (the array has
  16 elements), a reservation beyond it fails, and a context is reset on release.
  \<open>getScriptEnv\<close> is the element \<open>scriptEnvIndex\<close> of the array.
\<close>

definition getScriptEnv :: "Bridge \<Rightarrow> nat option" where
  "getScriptEnv B =
     (if 0 \<le> scriptEnvIndex B \<and> scriptEnvIndex B < 16 then Some (nat (scriptEnvIndex B)) else None)"




subsection \<open>The two bindings that addEvent calls\<close>

text \<open>
  Modelled from the spec: \<open>getSharedPtr<T>\<close> is declared in the missing header. A handle is a
  userdata that holds the shared pointer to the engine object; \<open>getSharedPtr<T>(L, 1)\<close>
  reads it from index 1. A value that is no userdata, or a pointer to an object of another
  kind, is outside its contract.
\<close>






subsection \<open>addEvent\<close>








subsection \<open>stopEvent and the timer trampoline\<close>

text \<open>The loops that release the captured arguments.\<close>

fun unrefAll :: "int list \<Rightarrow> lua_State \<Rightarrow> lua_State" where
  "unrefAll [] L = L"
| "unrefAll (parameter # rest) L = unrefAll rest (luaL_unref parameter L)"









subsection \<open>Notions used to state the properties of addEvent\<close>

text \<open>The test of the scan on one argument: the type stored under \<open>'t'\<close> in the metatable of
  the value, when it is neither \<open>LuaData_Unknown\<close> nor \<open>LuaData_Tile\<close>.\<close>

definition unsafeType :: "Header \<Rightarrow> lua_State \<Rightarrow> lua_value \<Rightarrow> LuaDataType option" where
  "unsafeType h L v =
     (case getmetatable_of L v of
        None \<Rightarrow> None
      | Some m \<Rightarrow>
          let type = getNumber_LuaDataType h (tfields L m (LNumber 116))
          in if type \<noteq> LuaData_Unknown \<and> type \<noteq> LuaData_Tile then Some type else None)"


text \<open>The types that the conversion sends to \<open>Item.getUniqueId\<close>; the other flagged types
  (player, monster, npc) go to \<open>Creature.getId\<close>.\<close>

definition item_kind :: "LuaDataType \<Rightarrow> bool" where
  "item_kind t = (t = LuaData_Item \<or> t = LuaData_Container \<or> t = LuaData_Teleport)"

text \<open>A flagged argument is a handle of its kind: a userdata whose pointer is null or points to
  an item (for an item type) or to a creature (for a creature type).\<close>

definition handle_ok :: "Game \<Rightarrow> lua_State \<Rightarrow> LuaDataType \<Rightarrow> lua_value \<Rightarrow> bool" where
  "handle_ok g L t a =
     (case a of
        LUserdata u \<Rightarrow>
          (case upointer L u of
             None \<Rightarrow> True
           | Some p \<Rightarrow> if item_kind t then getItem (things g p) else getCreature (things g p) \<noteq> None)
      | _ \<Rightarrow> False)"

text \<open>
  What the conversion puts in place of a flagged handle, and the environment it leaves: nil for
  a null pointer; for a creature the number \<open>getID()\<close>; for an item the number
  \<open>getUniqueId()\<close> when that is not 0, and otherwise the uid that \<open>addThing\<close> returns for the
  item in the current environment, which \<open>addThing\<close> may extend. (On a value that is no
  handle of its kind the binding is outside its contract; the function is nil there.)
\<close>

definition convertHandle ::
  "Game \<Rightarrow> lua_State \<Rightarrow> LuaDataType \<Rightarrow> lua_value \<Rightarrow> ScriptEnvironment
     \<Rightarrow> lua_value \<times> ScriptEnvironment" where
  "convertHandle g L t a env =
     (case a of
        LUserdata u \<Rightarrow>
          (case upointer L u of
             None \<Rightarrow> (LNil, env)
           | Some p \<Rightarrow>
               if item_kind t then
                 (if getUniqueId (things g p) = 0
                  then (LNumber (uint (fst (addThing g env (Some p)))), snd (addThing g env (Some p)))
                  else (LNumber (uint (getUniqueId (things g p))), env))
               else (case getCreature (things g p) of
                       Some cid \<Rightarrow> (LNumber (uint cid), env)
                     | None \<Rightarrow> (LNil, env)))
      | _ \<Rightarrow> (LNil, env))"

text \<open>The conversion loop as a function of the stack and the environment: the flagged
  positions are converted in the order of \<open>indexes\<close>.\<close>

fun convertAll ::
  "Game \<Rightarrow> lua_State \<Rightarrow> (int \<times> LuaDataType) list \<Rightarrow> lua_value list \<Rightarrow> ScriptEnvironment
     \<Rightarrow> lua_value list \<times> ScriptEnvironment" where
  "convertAll g L [] st env = (st, env)"
| "convertAll g L ((i, t) # rest) st env =
     convertAll g L rest
       (st[nat i - 1 := fst (convertHandle g L t (st ! (nat i - 1)) env)])
       (snd (convertHandle g L t (st ! (nat i - 1)) env))"


text \<open>The state after the registration of the classes: the globals \<open>Item\<close> and \<open>Creature\<close> are
  tables that hold the two bindings.\<close>

definition registered :: "lua_State \<Rightarrow> bool" where
  "registered L =
     ((\<exists>t. globals L ''Item'' = LTable t \<and>
            tfields L t (LString ''getUniqueId'') = LCFunction FnItemGetUniqueId) \<and>
      (\<exists>t. globals L ''Creature'' = LTable t \<and>
            tfields L t (LString ''getId'') = LCFunction FnCreatureGetId))"


subsection \<open>Concrete objects used in the examples\<close>

definition plainItem :: Thing where
  "plainItem = \<lparr>isRemoved = False, getCreature = None, getItem = True,
     hasUniqueIdAttribute = False, getUniqueId = 0, getParent = None\<rparr>"

definition tempItem :: Thing where
  "tempItem = plainItem\<lparr>getParent := Some 99\<rparr>"

text \<open>An engine whose object 5 is a tile (neither creature nor item) and whose object 7 is
  an item held by the placeholder container; every other pointer is a plain item.\<close>

definition exGame :: Game where
  "exGame = \<lparr>things = (\<lambda>p. if p = 7 then tempItem
                            else if p = 5 then plainItem\<lparr>getItem := False\<rparr>
                            else plainItem),
     getCreatureByID = (\<lambda>_. None), getUniqueItem = (\<lambda>_. None), virtualCylinder = 99\<rparr>"

definition exGameUnique :: Game where
  "exGameUnique = exGame\<lparr>getUniqueItem := (\<lambda>u. if u = 0 then Some 2 else None)\<rparr>"

definition freshEnv :: ScriptEnvironment where
  "freshEnv = \<lparr>scriptId = 0, callbackId = 0, timerEvent = False, interface = None,
     localMap = [], lastUID = 0xFFFF\<rparr>"

definition exWorld :: World where
  "exWorld = \<lparr>scriptEnv = (\<lambda>_. freshEnv), tempResults = [], lastResultId = 0, tempItems = []\<rparr>"

definition exHash :: "string \<Rightarrow> 64 word" where
  "exHash s = foldl (\<lambda>acc c. 31 * acc + of_char c) 0 s"

definition exCode :: "LuaDataType \<Rightarrow> int" where
  "exCode t =
     (case t of
        LuaData_Unknown \<Rightarrow> 0 | LuaData_Item \<Rightarrow> 1 | LuaData_Container \<Rightarrow> 2
      | LuaData_Teleport \<Rightarrow> 3 | LuaData_Player \<Rightarrow> 4 | LuaData_Monster \<Rightarrow> 5
      | LuaData_Npc \<Rightarrow> 6 | LuaData_Tile \<Rightarrow> 7)"

definition exType :: "lua_value \<Rightarrow> LuaDataType" where
  "exType v =
     (case v of
        LNumber n \<Rightarrow>
          (if n = 1 then LuaData_Item else if n = 2 then LuaData_Container
           else if n = 3 then LuaData_Teleport else if n = 4 then LuaData_Player
           else if n = 5 then LuaData_Monster else if n = 6 then LuaData_Npc
           else if n = 7 then LuaData_Tile else LuaData_Unknown)
      | _ \<Rightarrow> LuaData_Unknown)"

text \<open>A header whose conversions behave as \<open>lua_tonumber\<close> followed by a cast: a number
  converts to itself, any other value to 0.\<close>

definition exHeader :: Header where
  "exHeader = \<lparr>getNumber_uint32 = (\<lambda>v. case v of LNumber n \<Rightarrow> word_of_int n | _ \<Rightarrow> 0),
     getNumber_uint_fast8 = (\<lambda>v. case v of LNumber n \<Rightarrow> word_of_int n | _ \<Rightarrow> 0),
     getNumber_size_t = (\<lambda>v. case v of LNumber n \<Rightarrow> word_of_int n | _ \<Rightarrow> 0),
     getNumber_LuaDataType = exType, LuaDataType_code = exCode, std_hash = exHash\<rparr>"

definition emptyLua :: lua_State where
  "emptyLua = \<lparr>stack = [], tfields = (\<lambda>_ _. LNil), tmeta = (\<lambda>_. None), umeta = (\<lambda>_. None),
     upointer = (\<lambda>_. None), string_meta = None, globals = (\<lambda>_. LNil), registry = (\<lambda>_. LNil),
     refs = (\<lambda>_. LNil), next_table = 0, next_udata = 0, ref_count = 0, unref_calls = []\<rparr>"

text \<open>The registration of five classes and of the two bindings, as \<open>registerFunctions\<close>
  does it.\<close>

definition exLua :: "lua_State option" where
  "exLua =
     do { L \<leftarrow> registerClass exHeader ''Tile'' [] (Some (FnOther 0)) emptyLua;
          L \<leftarrow> registerClass exHeader ''Item'' [] (Some (FnOther 1)) L;
          L \<leftarrow> registerMethod ''Item'' ''getUniqueId'' FnItemGetUniqueId L;
          L \<leftarrow> registerClass exHeader ''Creature'' [] (Some (FnOther 2)) L;
          L \<leftarrow> registerMethod ''Creature'' ''getId'' FnCreatureGetId L;
          registerClass exHeader ''Player'' ''Creature'' (Some (FnOther 3)) L }"

text \<open>The script call \<open>isType(item, tile)\<close>: a handle of an item and a handle of a tile, each
  tagged with the metatable of its class.\<close>

definition exIsTypeCall :: "lua_State option" where
  "exIsTypeCall =
     do { L \<leftarrow> exLua;
          L \<leftarrow> pushSharedPtr (Some 1) L;
          L \<leftarrow> setMetatable (-1) ''Item'' L;
          L \<leftarrow> pushSharedPtr (Some 5) L;
          L \<leftarrow> setMetatable (-1) ''Tile'' L;
          luaIsType exHeader L }"










section \<open>Properties\<close>

text \<open>
  C7. A context that is processing callback id \<open>c \<noteq> 0\<close> rejects a second callback id:
  the call returns false and the context is unchanged (callback id still \<open>c\<close>, interface
  pointer not modified). When no callback is active the new id and interface are stored and
  the call returns true.
\<close>

theorem setCallbackId_nested_rejected:
  "(callbackId env \<noteq> 0 \<longrightarrow>
      fst (setCallbackId env cb si) = False \<and> fst (snd (setCallbackId env cb si)) = env) \<and>
   (callbackId env = 0 \<longrightarrow>
      fst (setCallbackId env cb si) = True \<and>
      callbackId (fst (snd (setCallbackId env cb si))) = cb \<and>
      interface (fst (snd (setCallbackId env cb si))) = si)"
  by (simp add: setCallbackId_def)

theorem setCallbackId_nested_rejected_witness:
  "fst (setCallbackId \<lparr>scriptId = 1, callbackId = 5, timerEvent = False, interface = Some 3,
         localMap = [], lastUID = 0xFFFF\<rparr> 9 (Some 4)) = False \<and>
   callbackId (fst (snd (setCallbackId \<lparr>scriptId = 1, callbackId = 5, timerEvent = False,
         interface = Some 3, localMap = [], lastUID = 0xFFFF\<rparr> 9 (Some 4)))) = 5 \<and>
   fst (setCallbackId \<lparr>scriptId = 1, callbackId = 0, timerEvent = False, interface = None,
         localMap = [], lastUID = 0xFFFF\<rparr> 9 (Some 4)) = True"
  using setCallbackId_nested_rejected
    [of "\<lparr>scriptId = 1, callbackId = 5, timerEvent = False, interface = Some 3,
         localMap = [], lastUID = 0xFFFF\<rparr>" 9 "Some 4"]
    setCallbackId_nested_rejected
    [of "\<lparr>scriptId = 1, callbackId = 0, timerEvent = False, interface = None,
         localMap = [], lastUID = 0xFFFF\<rparr>" 9 "Some 4"]
  by simp

subsection \<open>The local table\<close>

lemma findItem_None_iff: "findItem al item = None \<longleftrightarrow> item \<notin> snd ` set al"
  by (induction al) (auto simp: image_iff split: if_splits)

lemma findItem_Some_mem: "findItem al item = Some k \<Longrightarrow> (k, item) \<in> set al"
  by (induction al) (auto split: if_splits)

lemma map_of_map_insert: "map_of (map_insert k v al) = (map_of al)(k \<mapsto> v)"
  by (induction al) (auto simp: fun_eq_iff)

lemma filter_update_absent:
  "item \<notin> snd ` set al \<Longrightarrow>
     filter (\<lambda>(k, v). v = item) (map_insert u item al) = [(u, item)]"
proof (induction al)
  case Nil
  then show ?case by simp
next
  case (Cons p al)
  obtain k v where p: "p = (k, v)" by (cases p)
  from Cons.prems p have v: "v \<noteq> item" and rest: "item \<notin> snd ` set al" by auto
  have none: "filter (\<lambda>(k, v). v = item) al = []"
    using rest by (auto simp: filter_empty_conv image_iff)
  show ?case
  proof (cases "u < k \<or> u = k")
    case True
    then show ?thesis using p v none by auto
  next
    case False
    then show ?thesis using p v Cons.IH [OF rest] by simp
  qed
qed

text \<open>
  C10. \<open>insertItem\<close> on a uid that is already bound leaves the environment, and so its local
  table, unchanged: the earlier binding survives, the new object is not stored, and the only
  effect is the diagnostic.
\<close>

theorem insertItem_bound_unchanged:
  "map_of (localMap env) uid = Some old \<Longrightarrow>
     fst (insertItem env uid item) = env \<and>
     map_of (localMap (fst (insertItem env uid item))) uid = Some old \<and>
     snd (insertItem env uid item) = [''Lua Script Error: Thing uid already taken.'']"
  by (simp add: insertItem_def)

theorem insertItem_bound_unchanged_witness:
  "map_of (localMap (freshEnv\<lparr>localMap := [(0x10000, Some 1)]\<rparr>)) 0x10000 = Some (Some 1) \<and>
   fst (insertItem (freshEnv\<lparr>localMap := [(0x10000, Some 1)]\<rparr>) 0x10000 (Some 2)) =
     freshEnv\<lparr>localMap := [(0x10000, Some 1)]\<rparr> \<and>
   snd (insertItem (freshEnv\<lparr>localMap := [(0x10000, Some 1)]\<rparr>) 0x10000 (Some 2)) =
     [''Lua Script Error: Thing uid already taken.'']"
proof -
  have h: "map_of (localMap (freshEnv\<lparr>localMap := [(0x10000, Some 1)]\<rparr>)) 0x10000 = Some (Some 1)"
    by simp
  show ?thesis
    using h insertItem_bound_unchanged [OF h, of "Some 2"] by simp
qed


lemma findItem_update_absent:
  "item \<notin> snd ` set al \<Longrightarrow> findItem (map_insert u item al) item = Some u"
  by (induction al) (auto simp: image_iff)

lemma next_uid_local:
  fixes x :: uint32_t
  assumes "0xFFFF \<le> x" and "x < 0x0FFFFFFF"
  shows "0xFFFF < x + 1 \<and> x + 1 < 0x10000000"
proof -
  have a: "65535 \<le> unat x" using assms(1) by (simp add: word_le_nat_alt)
  have b: "unat x < 268435455" using assms(2) by (simp add: word_less_nat_alt)
  have "unat (x + 1) = (unat x + 1) mod 2 ^ 32" by (simp add: unat_word_ariths)
  also have "\<dots> = unat x + 1" using b by simp
  finally have c: "unat (x + 1) = unat x + 1" .
  show ?thesis using a b c by (simp add: word_less_nat_alt)
qed

text \<open>
  C1 (amended). Let \<open>o\<close> be an item that is not removed, is no creature and has no unique-id
  attribute, and let the context be one whose next local uid lies in the local range
  (\<open>0xFFFF \<le> lastUID < 0x0FFFFFFF\<close>) and whose table binds \<open>o\<close> at most once and only
  under keys of the local range. Then resolving the uid that \<open>addThing\<close> returns gives \<open>o\<close>,
  a second \<open>addThing\<close> returns the same uid and leaves the context as it is, and the table
  holds exactly one entry for \<open>o\<close>.
\<close>

theorem addThing_roundtrip:
  assumes live: "\<not> isRemoved (things g t)"
    and nocreature: "getCreature (things g t) = None"
    and isitem: "getItem (things g t)"
    and nouid: "\<not> hasUniqueIdAttribute (things g t)"
    and keys: "distinct (map fst (localMap env))"
    and range: "\<forall>(k, v) \<in> set (localMap env). v = Some t \<longrightarrow> 0xFFFF < k \<and> k < 0x10000000"
    and once: "length (filter (\<lambda>(k, v). v = Some t) (localMap env)) \<le> 1"
    and lo: "0xFFFF \<le> lastUID env"
    and hi: "lastUID env < 0x0FFFFFFF"
  shows "getThingByUID g (snd (addThing g env (Some t))) (fst (addThing g env (Some t))) = Inr (Some t)
       \<and> addThing g (snd (addThing g env (Some t))) (Some t) = addThing g env (Some t)
       \<and> length (filter (\<lambda>(k, v). v = Some t) (localMap (snd (addThing g env (Some t))))) = 1"
proof (cases "findItem (localMap env) (Some t)")
  case None
  let ?u = "lastUID env + 1"
  let ?env1 = "env\<lparr>localMap := map_insert ?u (Some t) (localMap env), lastUID := ?u\<rparr>"
  have absent: "Some t \<notin> snd ` set (localMap env)"
    using None by (simp add: findItem_None_iff)
  have first: "addThing g env (Some t) = (?u, ?env1)"
    using live nocreature isitem nouid None by (simp add: addThing_def)
  have u: "0xFFFF < ?u \<and> ?u < 0x10000000"
    using lo hi by (rule next_uid_local)
  have bound: "map_of (localMap ?env1) ?u = Some (Some t)"
    by (simp add: map_of_map_insert)
  have resolve: "getThingByUID g ?env1 ?u = Inr (Some t)"
    using u bound live by (auto simp: getThingByUID_def)
  have found: "findItem (localMap ?env1) (Some t) = Some ?u"
    using absent by (simp add: findItem_update_absent)
  have again: "addThing g ?env1 (Some t) = (?u, ?env1)"
    using live nocreature isitem nouid found by (simp add: addThing_def)
  have one: "length (filter (\<lambda>(k, v). v = Some t) (localMap ?env1)) = 1"
    using absent by (simp add: filter_update_absent)
  show ?thesis
    using first resolve again one by simp
next
  case (Some k)
  have first: "addThing g env (Some t) = (k, env)"
    using live nocreature isitem nouid Some by (simp add: addThing_def)
  have mem: "(k, Some t) \<in> set (localMap env)"
    using Some by (rule findItem_Some_mem)
  have bound: "map_of (localMap env) k = Some (Some t)"
    using keys mem by simp
  have k: "0xFFFF < k \<and> k < 0x10000000"
    using range mem by auto
  have resolve: "getThingByUID g env k = Inr (Some t)"
    using k bound live by (auto simp: getThingByUID_def)
  have "filter (\<lambda>(k, v). v = Some t) (localMap env) \<noteq> []"
    using mem by (auto simp: filter_empty_conv)
  then have "length (filter (\<lambda>(k, v). v = Some t) (localMap env)) \<noteq> 0"
    by simp
  with once have one: "length (filter (\<lambda>(k, v). v = Some t) (localMap env)) = 1"
    by linarith
  show ?thesis
    using first resolve one by simp
qed

theorem addThing_roundtrip_witness:
  "getThingByUID exGame (snd (addThing exGame freshEnv (Some 1))) (fst (addThing exGame freshEnv (Some 1)))
     = Inr (Some 1)
   \<and> fst (addThing exGame freshEnv (Some 1)) = 0x10000
   \<and> addThing exGame (snd (addThing exGame freshEnv (Some 1))) (Some 1) = addThing exGame freshEnv (Some 1)
   \<and> length (filter (\<lambda>(k, v). v = Some 1) (localMap (snd (addThing exGame freshEnv (Some 1))))) = 1"
proof -
  have 1: "\<not> isRemoved (things exGame 1)" by (simp add: exGame_def plainItem_def)
  have 2: "getCreature (things exGame 1) = None" by (simp add: exGame_def plainItem_def)
  have 3: "getItem (things exGame 1)" by (simp add: exGame_def plainItem_def)
  have 4: "\<not> hasUniqueIdAttribute (things exGame 1)" by (simp add: exGame_def plainItem_def)
  have 5: "distinct (map fst (localMap freshEnv))" by (simp add: freshEnv_def)
  have 6: "\<forall>(k, v) \<in> set (localMap freshEnv). v = Some 1 \<longrightarrow> 0xFFFF < k \<and> k < 0x10000000"
    by (simp add: freshEnv_def)
  have 7: "length (filter (\<lambda>(k, v). v = Some 1) (localMap freshEnv)) \<le> 1"
    by (simp add: freshEnv_def)
  have 8: "0xFFFF \<le> lastUID freshEnv" by (simp add: freshEnv_def)
  have 9: "lastUID freshEnv < 0x0FFFFFFF" by (simp add: freshEnv_def)
  have uid: "fst (addThing exGame freshEnv (Some 1)) = 0x10000"
    by (simp add: addThing_def exGame_def plainItem_def freshEnv_def)
  show ?thesis
    using addThing_roundtrip [OF 1 2 3 4 5 6 7 8 9] uid by simp
qed

text \<open>
  C1 as stated fails in four ways, each on an object that is not null, not removed, no
  creature and without unique id. In a context whose counter has reached the end of the
  local range the item gets the uid \<open>0x10000000\<close>, which \<open>getThingByUID\<close> resolves through
  the creature lookup. A tile is stored as a null item pointer, which \<open>getThingByUID\<close>
  dereferences. An item that \<open>insertItem\<close> has bound under a key of the unique-id range gets
  that key back and is then looked for among the unique items. An item bound under two keys
  keeps its two entries.
\<close>

theorem addThing_roundtrip_counterexample:
  "\<not> isRemoved (things exGame 1) \<and> getCreature (things exGame 1) = None \<and>
   \<not> hasUniqueIdAttribute (things exGame 1) \<and>
   fst (addThing exGame (freshEnv\<lparr>lastUID := 0x0FFFFFFF\<rparr>) (Some 1)) = 0x10000000 \<and>
   getThingByUID exGame (snd (addThing exGame (freshEnv\<lparr>lastUID := 0x0FFFFFFF\<rparr>) (Some 1)))
     (fst (addThing exGame (freshEnv\<lparr>lastUID := 0x0FFFFFFF\<rparr>) (Some 1))) = Inr None \<and>
   \<not> isRemoved (things exGame 5) \<and> getCreature (things exGame 5) = None \<and>
   \<not> hasUniqueIdAttribute (things exGame 5) \<and>
   getThingByUID exGame (snd (addThing exGame freshEnv (Some 5)))
     (fst (addThing exGame freshEnv (Some 5))) = Inl NullDereference \<and>
   fst (addThing exGame (freshEnv\<lparr>localMap := [(1000, Some 1)]\<rparr>) (Some 1)) = 1000 \<and>
   getThingByUID exGame (snd (addThing exGame (freshEnv\<lparr>localMap := [(1000, Some 1)]\<rparr>) (Some 1)))
     (fst (addThing exGame (freshEnv\<lparr>localMap := [(1000, Some 1)]\<rparr>) (Some 1))) = Inr None \<and>
   length (filter (\<lambda>(k, v). v = Some 1)
     (localMap (snd (addThing exGame
        (freshEnv\<lparr>localMap := [(0x10000, Some 1), (0x10001, Some 1)]\<rparr>) (Some 1))))) = 2"
  by (simp add: addThing_def getThingByUID_def exGame_def plainItem_def freshEnv_def Let_def)

subsection \<open>Resolving a uid\<close>

text \<open>
  C8 (amended). \<open>getThingByUID\<close> dispatches by range. For \<open>uid \<ge> 0x10000000\<close> the result is
  the engine's creature lookup, whatever the local table and the unique-item table hold.
  For \<open>uid \<le> 0xFFFF\<close>, the uid 0 included, the result is the engine's unique-item lookup,
  none for a removed item, whatever the local table holds. For the uids in between, the
  result is the local table's entry, none for a removed item or a missing entry, whatever
  the engine's lookups hold.
\<close>

theorem getThingByUID_dispatch:
  "(0x10000000 \<le> uid \<longrightarrow> getThingByUID g env uid = Inr (getCreatureByID g uid)) \<and>
   (uid \<le> 0xFFFF \<longrightarrow>
      getThingByUID g env uid =
        Inr (case getUniqueItem g uid of
               None \<Rightarrow> None
             | Some item \<Rightarrow> if isRemoved (things g item) then None else Some item)) \<and>
   (0xFFFF < uid \<and> uid < 0x10000000 \<longrightarrow>
      getThingByUID g env uid =
        (case map_of (localMap env) uid of
           None \<Rightarrow> Inr None
         | Some None \<Rightarrow> Inl NullDereference
         | Some (Some item) \<Rightarrow> if isRemoved (things g item) then Inr None else Inr (Some item)))"
proof (intro conjI impI)
  assume "0x10000000 \<le> uid"
  then show "getThingByUID g env uid = Inr (getCreatureByID g uid)"
    by (simp add: getThingByUID_def)
next
  assume a: "uid \<le> 0xFFFF"
  then have "\<not> 0x10000000 \<le> uid" by unat_arith
  with a show "getThingByUID g env uid =
        Inr (case getUniqueItem g uid of
               None \<Rightarrow> None
             | Some item \<Rightarrow> if isRemoved (things g item) then None else Some item)"
    by (simp add: getThingByUID_def split: option.splits)
next
  assume a: "0xFFFF < uid \<and> uid < 0x10000000"
  then have "\<not> 0x10000000 \<le> uid" and "\<not> uid \<le> 0xFFFF" by unat_arith+
  then show "getThingByUID g env uid =
        (case map_of (localMap env) uid of
           None \<Rightarrow> Inr None
         | Some None \<Rightarrow> Inl NullDereference
         | Some (Some item) \<Rightarrow> if isRemoved (things g item) then Inr None else Inr (Some item))"
    by (simp add: getThingByUID_def split: option.splits)
qed

theorem getThingByUID_dispatch_witness:
  "getThingByUID exGame (freshEnv\<lparr>localMap := [(0x10000000, Some 1)]\<rparr>) 0x10000000 = Inr None \<and>
   getThingByUID exGameUnique (freshEnv\<lparr>localMap := [(0, Some 1)]\<rparr>) 0 = Inr (Some 2) \<and>
   getThingByUID exGameUnique (freshEnv\<lparr>localMap := [(0x10000, Some 1)]\<rparr>) 0x10000 = Inr (Some 1)"
  using getThingByUID_dispatch [of "0x10000000" exGame "freshEnv\<lparr>localMap := [(0x10000000, Some 1)]\<rparr>"]
    getThingByUID_dispatch [of 0 exGameUnique "freshEnv\<lparr>localMap := [(0, Some 1)]\<rparr>"]
    getThingByUID_dispatch [of "0x10000" exGameUnique "freshEnv\<lparr>localMap := [(0x10000, Some 1)]\<rparr>"]
  by (simp add: exGame_def exGameUnique_def plainItem_def)

text \<open>
  C8 as stated sends every uid outside \<open>[1, 0xFFFF]\<close> and below \<open>0x10000000\<close> to
  the local table. The uid 0 is such a uid, and the code sends it to the unique-item
  lookup: a live local binding of 0 is not found, and a unique item registered under 0 is.
\<close>

theorem getThingByUID_uid0_counterexample:
  "\<not> (0x10000000 \<le> (0 :: uint32_t)) \<and> \<not> (1 \<le> (0 :: uint32_t) \<and> (0 :: uint32_t) \<le> 0xFFFF) \<and>
   map_of (localMap (freshEnv\<lparr>localMap := [(0, Some 1)]\<rparr>)) 0 = Some (Some 1) \<and>
   \<not> isRemoved (things exGame 1) \<and>
   getThingByUID exGame (freshEnv\<lparr>localMap := [(0, Some 1)]\<rparr>) 0 = Inr None \<and>
   map_of (localMap freshEnv) 0 = None \<and>
   getThingByUID exGameUnique freshEnv 0 = Inr (Some 2)"
  by (simp add: getThingByUID_def exGame_def exGameUnique_def plainItem_def freshEnv_def)


subsection \<open>Resetting an environment\<close>

lemma resetEnv_loop_eq:
  "resetEnv_loop g this xs =
     (filter (\<lambda>(k, v). k \<noteq> this) xs, pointees (map snd (filter (\<lambda>(k, v). k = this) xs)))"
  by (induction xs) (auto split: option.splits)

lemma fst_resetEnv_loop: "fst (resetEnv_loop g this xs) = filter (\<lambda>(k, v). k \<noteq> this) xs"
  by (simp add: resetEnv_loop_eq)








subsection \<open>The cache of query results\<close>

text \<open>
  C5 (amended). The cache of query results is one static map for all environments: a result
  added through one environment is found under its id through any other environment, and
  resetting one environment empties the cache for all of them. The members of another
  environment (script id, callback id, timer flag, interface, local table, uid counter) are
  not changed by either operation.
\<close>

theorem tempResults_shared:
  "getResultByID other (snd (addResult this w res)) (fst (addResult this w res)) = res \<and>
   getResultByID other (fst (resetEnv g this w)) rid = None \<and>
   scriptEnv (snd (addResult this w res)) other = scriptEnv w other \<and>
   (other \<noteq> this \<longrightarrow> scriptEnv (fst (resetEnv g this w)) other = scriptEnv w other)"
  by (simp add: getResultByID_def addResult_def resetEnv_def resetEnv_loop_eq Let_def
      update_conv')

theorem tempResults_shared_witness:
  "getResultByID 1 (snd (addResult 0 exWorld (Some 5))) 1 = Some 5 \<and>
   getResultByID 1 (fst (resetEnv exGame 0 (snd (addResult 1 exWorld (Some 5))))) 1 = None \<and>
   (1 :: nat) \<noteq> 0 \<and>
   scriptEnv (fst (resetEnv exGame 0 (snd (addResult 1 exWorld (Some 5))))) 1 = freshEnv"
proof -
  have id: "fst (addResult 0 exWorld (Some 5)) = 1"
    by (simp add: addResult_def exWorld_def)
  have env: "scriptEnv (snd (addResult 1 exWorld (Some 5))) 1 = freshEnv"
    by (simp add: addResult_def exWorld_def)
  show ?thesis
    using tempResults_shared [of 1 0 exWorld "Some 5" exGame 1]
      tempResults_shared [of 1 0 "snd (addResult 1 exWorld (Some 5))" "Some 5" exGame 1] id env
    by simp
qed

text \<open>
  C5 as stated keeps the cache of one context apart from the others. Environments 0
  and 1 are distinct; a result added through 0 is visible through 1, and a result added
  through 1 is gone once 0 is reset.
\<close>

theorem tempResults_private_counterexample:
  "(0 :: nat) \<noteq> 1 \<and>
   getResultByID 1 exWorld 1 = None \<and>
   getResultByID 1 (snd (addResult 0 exWorld (Some 5))) 1 = Some 5 \<and>
   getResultByID 1 (snd (addResult 1 exWorld (Some 5))) 1 = Some 5 \<and>
   getResultByID 1 (fst (resetEnv exGame 0 (snd (addResult 1 exWorld (Some 5))))) 1 = None"
  by (simp add: getResultByID_def addResult_def resetEnv_def Let_def exWorld_def
      split: prod.splits)


subsection \<open>Stack indices\<close>

lemma getmetatable_of_stack [simp]:
  "getmetatable_of (L\<lparr>stack := st\<rparr>) v = getmetatable_of L v"
  by (cases v) (simp_all add: getmetatable_of_def)


lemma index2value_neg:
  "0 < k \<Longrightarrow> k \<le> length (stack L) \<Longrightarrow> index2value L (- int k) = Some (rev (stack L) ! (k - 1))"
  by (auto simp: index2value_def index2adr_def rev_nth nat_diff_distrib nat_add_distrib)

lemma index2value_top:
  "1 \<le> length (stack L) \<Longrightarrow> index2value L (-1) = Some (rev (stack L) ! 0)"
  "2 \<le> length (stack L) \<Longrightarrow> index2value L (-2) = Some (rev (stack L) ! 1)"
  "3 \<le> length (stack L) \<Longrightarrow> index2value L (-3) = Some (rev (stack L) ! 2)"
  "4 \<le> length (stack L) \<Longrightarrow> index2value L (-4) = Some (rev (stack L) ! 3)"
  using index2value_neg [of 1 L] index2value_neg [of 2 L] index2value_neg [of 3 L]
    index2value_neg [of 4 L] by simp_all

lemma stack_same [simp]: "L\<lparr>stack := stack L\<rparr> = L"
  by simp



lemma index2value_1:
  "stack L \<noteq> [] \<Longrightarrow> index2value L 1 = Some (hd (stack L))"
  by (cases "stack L") (simp_all add: index2value_def index2adr_def)

text \<open>
  Whatever the two arguments are, as long as each has a metatable, \<open>luaIsType\<close> answers
  true: every \<open>getNumber\<close> reads index 1, the first argument, and not the value that the
  preceding \<open>lua_rawgeti\<close> pushed. Both depths are the same number, so the loop does not
  run, and both hashes are the same number, so the comparison holds.
\<close>

lemma luaIsType_true:
  assumes s: "stack L = base @ [a, b]"
    and ma: "getmetatable_of L a = Some ma"
    and mb: "getmetatable_of L b = Some mb"
  shows "luaIsType h L =
     Some (L\<lparr>stack := base @ [a, b, LTable ma, LTable mb, tfields L ma (LNumber 112),
            tfields L ma (LNumber 104), tfields L mb (LNumber 112), tfields L mb (LNumber 104),
            LBoolean True]\<rparr>)"
  using s ma mb
  by (simp add: luaIsType_def lua_getmetatable_def lua_rawgeti_def push_def pushBoolean_def
      lua_pushboolean_def hd_append Let_def index2value_top index2value_1)

text \<open>
  C2. The claim has \<open>isType\<close> answer false for two types of which neither derives from the
  other, after a walk of \<open>depth(A) - depth(B)\<close> steps and a comparison of the stored hashes.
  \<open>Item\<close> and \<open>Tile\<close> are registered without a base class and their stored hashes differ,
  yet \<open>isType(item, tile)\<close> returns true.
\<close>

theorem luaIsType_unrelated_true:
  "(case exIsTypeCall of
      None \<Rightarrow> False
    | Some L \<Rightarrow>
        last (stack L) = LBoolean True \<and>
        (case (registry L ''Item'', registry L ''Tile'') of
           (LTable a, LTable b) \<Rightarrow> tfields L a (LNumber 104) \<noteq> tfields L b (LNumber 104)
         | _ \<Rightarrow> False))"
  by code_simp

subsection \<open>Timers\<close>


lemma stack_unrefAll: "stack (unrefAll ps L) = stack L"
  by (induction ps arbitrary: L) (simp_all add: luaL_unref_def)






subsection \<open>addEvent\<close>


lemma registered_stack [simp]: "registered (L\<lparr>stack := st\<rparr>) = registered L"
  by (simp add: registered_def)







lemma convertHandle_stack [simp]:
  "convertHandle g (L\<lparr>stack := st\<rparr>) t a env = convertHandle g L t a env"
  by (cases a) (simp_all add: convertHandle_def)

lemma convertAll_stack [simp]:
  "convertAll g (L\<lparr>stack := s\<rparr>) ixs st env = convertAll g L ixs st env"
  by (induction ixs arbitrary: st env) auto

lemma length_convertAll: "length (fst (convertAll g L ixs st env)) = length st"
  by (induction ixs arbitrary: st env) auto



lemma handle_ok_stack [simp]: "handle_ok g (L\<lparr>stack := st\<rparr>) t a = handle_ok g L t a"
  by (cases a) (simp_all add: handle_ok_def)

lemma getScriptEnv_upd [simp]:
  "getScriptEnv (B\<lparr>lua := L\<rparr>) = getScriptEnv B"
  "getScriptEnv (B\<lparr>world := w\<rparr>) = getScriptEnv B"
  "getScriptEnv (B\<lparr>reported := r\<rparr>) = getScriptEnv B"
  by (simp_all add: getScriptEnv_def)









lemma unsafeType_stack [simp]: "unsafeType h (L\<lparr>stack := st\<rparr>) a = unsafeType h L a"
  by (simp add: unsafeType_def split: option.splits)
















end
